theory Spec2Isabelle
  imports Main
begin

section \<open>Gateway test mocks: src/gateway/test-helpers.mocks.ts\<close>

text \<open>
  The file installs stand-ins for the gateway's collaborators: the node bridge
  server, the configuration module and the embedded agent run tracker. Each
  stand-in is a closure over module-level mutable objects (\<open>hoisted\<close>,
  \<open>testState\<close>, \<open>testConfigRoot\<close>) and, for the configuration module, over the
  file system. The model passes those objects explicitly: a function that
  mutates one returns the updated object next to its result.

  An \<open>async\<close> function returns a promise. None of the modelled bodies awaits
  anything but the file system, and calls are modelled one after the other, so
  a call runs to its end and the model gives the settled promise as its result.

  Functions wrapped in \<open>vi.fn\<close> are modelled by the implementation they are
  created with. The call log that \<open>vi.fn\<close> keeps belongs to the test library.
\<close>

subsection \<open>JavaScript values\<close>

text \<open>
  Plain data as the mocks hold and return it: the values that JSON text denotes.
  An object is the list of its own properties in order. Numbers are carried,
  never computed with, so their type \<open>'num\<close> is left open.
\<close>

datatype 'num json =
    JNull
  | JBool bool
  | JNum 'num
  | JStr string
  | JArr "'num json list"
  | JObj "(string \<times> 'num json) list"

definition obj_keys :: "'num json \<Rightarrow> string list" where
  "obj_keys v = (case v of JObj props \<Rightarrow> map fst props | _ \<Rightarrow> [])"

definition obj_get :: "string \<Rightarrow> 'num json \<Rightarrow> 'num json option" where
  "obj_get k v = (case v of JObj props \<Rightarrow> map_of props k | _ \<Rightarrow> None)"

definition obj_pick :: "string list \<Rightarrow> 'num json \<Rightarrow> 'num json" where
  "obj_pick ks v =
     (case v of JObj props \<Rightarrow> JObj (filter (\<lambda>p. fst p \<in> set ks) props) | _ \<Rightarrow> v)"

text \<open>
  A thrown value: an \<open>Error\<close> with its \<open>name\<close> and \<open>message\<close>.
  \<open>String(err)\<close> is \<open>Error.prototype.toString\<close>.
\<close>

datatype js_error = JsError string string

definition String_of_error :: "js_error \<Rightarrow> string" where
  "String_of_error err =
     (case err of JsError name msg \<Rightarrow>
        if name = [] then msg else if msg = [] then name else name @ '': '' @ msg)"

datatype 'a promise = Resolved 'a | Rejected js_error

definition is_rejected :: "'a promise \<Rightarrow> bool" where
  "is_rejected p = (case p of Resolved _ \<Rightarrow> False | Rejected _ \<Rightarrow> True)"

definition LF :: char where
  "LF = CHR 0x0A"

definition DQ :: char where
  "DQ = CHR 0x22"

text \<open>
  \<open>String.prototype.trimEnd\<close> on the white space and line terminators of the
  ASCII range (a \<open>string\<close> here is a list of bytes).
\<close>

definition is_js_whitespace :: "char \<Rightarrow> bool" where
  "is_js_whitespace c \<longleftrightarrow>
     c = CHR 0x09 \<or> c = CHR 0x0A \<or> c = CHR 0x0B \<or> c = CHR 0x0C \<or> c = CHR 0x0D \<or> c = CHR 0x20"

definition trimEnd :: "string \<Rightarrow> string" where
  "trimEnd s = rev (dropWhile is_js_whitespace (rev s))"

subsection \<open>The runtime\<close>

text \<open>
  The built-ins the mocks call are parameters of the model: \<open>JSON.parse\<close>
  (\<open>Inl\<close> is the \<open>SyntaxError\<close> it throws), \<open>JSON.stringify(v, null, space)\<close>
  (space \<open>0\<close> when the call gives none), the SHA-256 digest in hexadecimal,
  \<open>path.join\<close> of two segments and \<open>path.dirname\<close>.
\<close>

record 'num runtime =
  JSON_parse :: "string \<Rightarrow> js_error + 'num json"
  JSON_stringify :: "'num json \<Rightarrow> nat \<Rightarrow> string"
  sha256_hex :: "string \<Rightarrow> string"
  path_join :: "string \<Rightarrow> string \<Rightarrow> string"
  path_dirname :: "string \<Rightarrow> string"

text \<open>
  A text is valid JSON when \<open>JSON.parse\<close> accepts it. A value is
  JSON-serializable when the text \<open>JSON.stringify\<close> gives for it (indented by
  two) parses back to it, and parses to the same once trailing white space is
  trimmed and a line feed appended.
\<close>

definition valid_JSON :: "'num runtime \<Rightarrow> string \<Rightarrow> bool" where
  "valid_JSON R s = (case JSON_parse R s of Inr _ \<Rightarrow> True | Inl _ \<Rightarrow> False)"

definition JSON_serializable :: "'num runtime \<Rightarrow> 'num json \<Rightarrow> bool" where
  "JSON_serializable R v \<longleftrightarrow>
     JSON_parse R (JSON_stringify R v 2) = Inr v \<and>
     JSON_parse R (trimEnd (JSON_stringify R v 2) @ [LF]) = JSON_parse R (JSON_stringify R v 2)"

subsection \<open>The node bridge server mock\<close>

record BridgeClientInfo =
  nodeId :: string
  displayName :: "string option"
  platform :: "string option"
  version :: "string option"
  remoteIp :: "string option"
  deviceFamily :: "string option"
  modelIdentifier :: "string option"
  caps :: "string list option"
  commands :: "string list option"

text \<open>
  \<open>hoisted.bridgeInvoke\<close>: \<open>async () => ({type, id, ok, payloadJSON, error})\<close>. It
  declares no parameter, so whatever the caller passes is ignored.
\<close>

definition invoke_res :: "'num runtime \<Rightarrow> 'num json" where
  "invoke_res R =
     JObj [(''type'', JStr ''invoke-res''),
           (''id'', JStr ''1''),
           (''ok'', JBool True),
           (''payloadJSON'', JStr (JSON_stringify R (JObj [(''ok'', JBool True)]) 0)),
           (''error'', JNull)]"

definition bridgeInvoke :: "'num runtime \<Rightarrow> 'args \<Rightarrow> 'num json promise" where
  "bridgeInvoke R args = Resolved (invoke_res R)"

text \<open>\<open>hoisted.bridgeListConnected\<close> is \<open>vi.fn(() => [])\<close>.\<close>

definition bridgeListConnected :: "BridgeClientInfo list" where
  "bridgeListConnected = []"

text \<open>\<open>hoisted.bridgeSendEvent\<close> is \<open>vi.fn()\<close>: it returns \<open>undefined\<close>.\<close>

definition bridgeSendEvent :: "'args \<Rightarrow> unit" where
  "bridgeSendEvent args = ()"

text \<open>
  The state the bridge mock writes: \<open>bridgeStartCalls\<close>, the options of every
  start (\<open>'o\<close> stands for \<open>BridgeStartOpts\<close>, a record of callbacks the mock
  never calls).
\<close>

record 'o bridge_state =
  bridgeStartCalls :: "'o list"

text \<open>
  What a caller passes to \<open>invoke\<close> (node id, method, parameters, timeout in
  milliseconds) and to \<open>sendEvent\<close> (node id, event, payload).
\<close>

type_synonym invoke_args = "string \<times> string \<times> string option \<times> nat option"

type_synonym event_args = "string \<times> string \<times> string option"

record ('o, 'num) bridge_handle =
  port :: nat
  close :: "'o bridge_state \<Rightarrow> unit promise \<times> 'o bridge_state"
  listConnected :: "BridgeClientInfo list"
  invoke :: "invoke_args \<Rightarrow> 'num json promise"
  sendEvent :: "event_args \<Rightarrow> unit"

text \<open>
  The handle \<open>startNodeBridgeServer\<close> resolves with. Its \<open>close\<close> is
  \<open>async () => {}\<close>.
\<close>

definition bridge_server_handle :: "'num runtime \<Rightarrow> ('o, 'num) bridge_handle" where
  "bridge_server_handle R =
     \<lparr>port = 18790,
      close = (\<lambda>s. (Resolved (), s)),
      listConnected = bridgeListConnected,
      invoke = bridgeInvoke R,
      sendEvent = bridgeSendEvent\<rparr>"

definition startNodeBridgeServer ::
  "'num runtime \<Rightarrow> 'o \<Rightarrow> 'o bridge_state \<Rightarrow> ('o, 'num) bridge_handle promise \<times> 'o bridge_state" where
  "startNodeBridgeServer R opts s =
     (Resolved (bridge_server_handle R), s\<lparr>bridgeStartCalls := bridgeStartCalls s @ [opts]\<rparr>)"

text \<open>
  The result type of \<open>BridgeStartOpts.onRequest\<close>:
  \<open>{ok: true; payloadJSON?: string | null}\<close> or
  \<open>{ok: false; error: {code: string; message: string; details?: unknown}}\<close>,
  read as the exact set of properties a value may have.
\<close>

definition is_request_error :: "'num json \<Rightarrow> bool" where
  "is_request_error e \<longleftrightarrow>
     distinct (obj_keys e) \<and>
     set (obj_keys e) \<subseteq> {''code'', ''message'', ''details''} \<and>
     (case obj_get ''code'' e of Some (JStr _) \<Rightarrow> True | _ \<Rightarrow> False) \<and>
     (case obj_get ''message'' e of Some (JStr _) \<Rightarrow> True | _ \<Rightarrow> False)"

definition is_onRequest_result :: "'num json \<Rightarrow> bool" where
  "is_onRequest_result v \<longleftrightarrow>
     distinct (obj_keys v) \<and>
     (case obj_get ''ok'' v of
        Some (JBool True) \<Rightarrow>
          set (obj_keys v) \<subseteq> {''ok'', ''payloadJSON''} \<and>
          (case obj_get ''payloadJSON'' v of
             None \<Rightarrow> True | Some (JStr _) \<Rightarrow> True | Some JNull \<Rightarrow> True | Some _ \<Rightarrow> False)
      | Some (JBool False) \<Rightarrow>
          set (obj_keys v) \<subseteq> {''ok'', ''error''} \<and>
          (case obj_get ''error'' v of Some e \<Rightarrow> is_request_error e | None \<Rightarrow> False)
      | _ \<Rightarrow> False)"

subsection \<open>The embedded run mock\<close>

text \<open>
  \<open>hoisted.embeddedRunMock\<close>: the ids of the sessions with an active run, the
  log of aborts, the log of waits, and the outcome a wait reports per session.
  Tests fill \<open>activeIds\<close> and \<open>waitResults\<close>; the three functions below only
  read them.
\<close>

record embeddedRunMock =
  activeIds :: "string set"
  abortCalls :: "string list"
  waitCalls :: "string list"
  waitResults :: "string \<rightharpoonup> bool"

definition embeddedRunMock_initial :: embeddedRunMock where
  "embeddedRunMock_initial =
     \<lparr>activeIds = {}, abortCalls = [], waitCalls = [], waitResults = Map.empty\<rparr>"

definition isEmbeddedPiRunActive :: "string \<Rightarrow> embeddedRunMock \<Rightarrow> bool" where
  "isEmbeddedPiRunActive sessionId m \<longleftrightarrow> sessionId \<in> activeIds m"

definition abortEmbeddedPiRun :: "string \<Rightarrow> embeddedRunMock \<Rightarrow> bool \<times> embeddedRunMock" where
  "abortEmbeddedPiRun sessionId m =
     (let m' = m\<lparr>abortCalls := abortCalls m @ [sessionId]\<rparr>
      in (sessionId \<in> activeIds m', m'))"

definition waitForEmbeddedPiRunEnd ::
  "string \<Rightarrow> embeddedRunMock \<Rightarrow> bool promise \<times> embeddedRunMock" where
  "waitForEmbeddedPiRunEnd sessionId m =
     (let m' = m\<lparr>waitCalls := waitCalls m @ [sessionId]\<rparr>
      in (Resolved (case waitResults m' sessionId of Some b \<Rightarrow> b | None \<Rightarrow> True), m'))"

text \<open>
  Two states a test sets up for session \<open>s1\<close>: a run is active and no outcome
  is recorded; a run is active and the recorded outcome is \<open>false\<close>.
\<close>

definition run_active_s1 :: embeddedRunMock where
  "run_active_s1 =
     \<lparr>activeIds = {''s1''}, abortCalls = [], waitCalls = [], waitResults = Map.empty\<rparr>"

definition run_aborting_s1 :: embeddedRunMock where
  "run_aborting_s1 =
     \<lparr>activeIds = {''s1''}, abortCalls = [], waitCalls = [], waitResults = [''s1'' \<mapsto> False]\<rparr>"

text \<open>
  A state a test sets up for a session \<open>gone\<close> that never had a run: the
  outcome \<open>false\<close> is recorded for it and \<open>activeIds\<close> is empty.
\<close>

definition outcome_without_run :: embeddedRunMock where
  "outcome_without_run =
     \<lparr>activeIds = {}, abortCalls = [], waitCalls = [], waitResults = [''gone'' \<mapsto> False]\<rparr>"

text \<open>
  Modelled from the spec: the end of a run. No code in the file ends a run; the
  embedded agent executor, and the tests that stand in for it, do. The spec
  says of an Embedded Run that it is "destroyed (removed from the active set)
  when it ends, whether by completion or abort": the session id leaves
  \<open>activeIds\<close> and nothing else changes.
\<close>

definition end_run :: "string \<Rightarrow> embeddedRunMock \<Rightarrow> embeddedRunMock" where
  "end_run sessionId m = m\<lparr>activeIds := activeIds m - {sessionId}\<rparr>"

text \<open>
  The three operations as commands, and a run of a list of them, for statements
  about every sequence of calls.
\<close>

datatype run_call = IsActive string | Abort string | WaitForEnd string

fun run_call_step :: "run_call \<Rightarrow> embeddedRunMock \<Rightarrow> embeddedRunMock" where
  "run_call_step (IsActive sessionId) m = m"
| "run_call_step (Abort sessionId) m = snd (abortEmbeddedPiRun sessionId m)"
| "run_call_step (WaitForEnd sessionId) m = snd (waitForEmbeddedPiRunEnd sessionId m)"

fun run_calls :: "run_call list \<Rightarrow> embeddedRunMock \<Rightarrow> embeddedRunMock" where
  "run_calls [] m = m"
| "run_calls (c # cs) m = run_calls cs (run_call_step c m)"

subsection \<open>The file system\<close>

text \<open>
  What \<open>node:fs/promises\<close> shows of the disk to the configuration mock: a path
  holds a file with its text, a directory, or nothing. \<open>access\<close> rejects on a
  path that holds nothing, \<open>readFile\<close> also on a directory. \<open>mkdir\<close> with
  \<open>recursive\<close> accepts a directory that is already there and rejects on a file;
  the parents it would create are not tracked. \<open>writeFile\<close> needs the parent
  directory and rejects on a directory.
\<close>

datatype fs_node = File string | Directory

type_synonym file_system = "string \<rightharpoonup> fs_node"

definition fs_error :: "string \<Rightarrow> string \<Rightarrow> string \<Rightarrow> js_error" where
  "fs_error code syscall p = JsError ''Error'' (code @ '', '' @ syscall @ '' '' @ p)"

definition fs_access :: "string \<Rightarrow> file_system \<Rightarrow> unit promise" where
  "fs_access p disk =
     (case disk p of
        None \<Rightarrow> Rejected (fs_error ''ENOENT: no such file or directory'' ''access'' p)
      | Some _ \<Rightarrow> Resolved ())"

definition fs_readFile :: "string \<Rightarrow> file_system \<Rightarrow> string promise" where
  "fs_readFile p disk =
     (case disk p of
        None \<Rightarrow> Rejected (fs_error ''ENOENT: no such file or directory'' ''open'' p)
      | Some Directory \<Rightarrow> Rejected (fs_error ''EISDIR: illegal operation on a directory'' ''read'' p)
      | Some (File body) \<Rightarrow> Resolved body)"

definition fs_mkdir_recursive :: "string \<Rightarrow> file_system \<Rightarrow> unit promise \<times> file_system" where
  "fs_mkdir_recursive p disk =
     (case disk p of
        Some (File _) \<Rightarrow> (Rejected (fs_error ''EEXIST: file already exists'' ''mkdir'' p), disk)
      | _ \<Rightarrow> (Resolved (), disk(p \<mapsto> Directory)))"

definition fs_writeFile ::
  "'num runtime \<Rightarrow> string \<Rightarrow> string \<Rightarrow> file_system \<Rightarrow> unit promise \<times> file_system" where
  "fs_writeFile R p body disk =
     (case disk p of
        Some Directory \<Rightarrow>
          (Rejected (fs_error ''EISDIR: illegal operation on a directory'' ''open'' p), disk)
      | _ \<Rightarrow>
          (case disk (path_dirname R p) of
             Some Directory \<Rightarrow> (Resolved (), disk(p \<mapsto> File body))
           | Some (File _) \<Rightarrow> (Rejected (fs_error ''ENOTDIR: not a directory'' ''open'' p), disk)
           | None \<Rightarrow> (Rejected (fs_error ''ENOENT: no such file or directory'' ''open'' p), disk)))"

subsection \<open>The configuration module mock\<close>

datatype issue = Issue (issue_path: string) (issue_message: string)

text \<open>
  The fields of \<open>testState\<close> that the modelled functions read. \<open>legacyParsed\<close> is
  \<open>None\<close> when a test has set it to \<open>null\<close> or \<open>undefined\<close>, the case the
  source's \<open>?? {}\<close> provides for.
\<close>

record 'num test_state =
  legacyIssues :: "issue list"
  legacyParsed :: "'num json option"

record 'num world =
  testConfigRoot :: string
  testState :: "'num test_state"
  fs :: file_system

record 'num config_snapshot =
  path :: string
  exists :: bool
  raw :: "string option"
  parsed :: "'num json"
  valid :: bool
  config :: "'num json"
  hash :: string
  issues :: "issue list"
  snapshot_legacyIssues :: "issue list"

definition resolveConfigPath :: "'num runtime \<Rightarrow> 'num world \<Rightarrow> string" where
  "resolveConfigPath R w = path_join R (testConfigRoot w) ''clawdbot.json''"

definition hashConfigRaw :: "'num runtime \<Rightarrow> string option \<Rightarrow> string" where
  "hashConfigRaw R r = sha256_hex R (case r of Some body \<Rightarrow> body | None \<Rightarrow> [])"

definition readConfigFileSnapshot :: "'num runtime \<Rightarrow> 'num world \<Rightarrow> 'num config_snapshot promise" where
  "readConfigFileSnapshot R w =
     (if length (legacyIssues (testState w)) > 0 then
        (let legacy = (case legacyParsed (testState w) of Some v \<Rightarrow> v | None \<Rightarrow> JObj []);
             body = JSON_stringify R legacy 0
         in Resolved
              \<lparr>path = resolveConfigPath R w,
               exists = True,
               raw = Some body,
               parsed = legacy,
               valid = False,
               config = JObj [],
               hash = hashConfigRaw R (Some body),
               issues = map (\<lambda>i. Issue (issue_path i) (issue_message i)) (legacyIssues (testState w)),
               snapshot_legacyIssues = legacyIssues (testState w)\<rparr>)
      else
        (let configPath = resolveConfigPath R w;
             read_failed = (\<lambda>err.
               \<lparr>path = configPath,
                exists = True,
                raw = None,
                parsed = JObj [],
                valid = False,
                config = JObj [],
                hash = hashConfigRaw R None,
                issues = [Issue [] (''read failed: '' @ String_of_error err)],
                snapshot_legacyIssues = []\<rparr>)
         in case fs_access configPath (fs w) of
              Rejected _ \<Rightarrow>
                Resolved
                  \<lparr>path = configPath,
                   exists = False,
                   raw = None,
                   parsed = JObj [],
                   valid = True,
                   config = JObj [],
                   hash = hashConfigRaw R None,
                   issues = [],
                   snapshot_legacyIssues = []\<rparr>
            | Resolved _ \<Rightarrow>
                (case fs_readFile configPath (fs w) of
                   Rejected err \<Rightarrow> Resolved (read_failed err)
                 | Resolved body \<Rightarrow>
                     (case JSON_parse R body of
                        Inl err \<Rightarrow> Resolved (read_failed err)
                      | Inr v \<Rightarrow>
                          Resolved
                            \<lparr>path = configPath,
                             exists = True,
                             raw = Some body,
                             parsed = v,
                             valid = True,
                             config = v,
                             hash = hashConfigRaw R (Some body),
                             issues = [],
                             snapshot_legacyIssues = []\<rparr>))))"

definition writeConfigFile :: "'num runtime \<Rightarrow> 'num json \<Rightarrow> 'num world \<Rightarrow> unit promise \<times> 'num world" where
  "writeConfigFile R cfg w =
     (let configPath = resolveConfigPath R w
      in case fs_mkdir_recursive (path_dirname R configPath) (fs w) of
           (Rejected err, disk) \<Rightarrow> (Rejected err, w\<lparr>fs := disk\<rparr>)
         | (Resolved _, disk) \<Rightarrow>
             (let body = trimEnd (JSON_stringify R cfg 2) @ [LF]
              in case fs_writeFile R configPath body disk of
                   (outcome, disk') \<Rightarrow> (outcome, w\<lparr>fs := disk'\<rparr>)))"

text \<open>
  \<open>parseConfigJson5\<close> returns \<open>{ok: true, parsed}\<close> or \<open>{ok: false, error}\<close>;
  \<open>validateConfigObject\<close> returns \<open>{ok: true, config, issues: []}\<close>.
\<close>

datatype 'num parse_result = ParseOk "'num json" | ParseFailed string

definition parse_ok :: "'num parse_result \<Rightarrow> bool" where
  "parse_ok r = (case r of ParseOk _ \<Rightarrow> True | ParseFailed _ \<Rightarrow> False)"

definition parseConfigJson5 :: "'num runtime \<Rightarrow> string \<Rightarrow> 'num parse_result" where
  "parseConfigJson5 R s =
     (case JSON_parse R s of
        Inr v \<Rightarrow> ParseOk v
      | Inl err \<Rightarrow> ParseFailed (String_of_error err))"

record 'num config_validation =
  ok :: bool
  validated_config :: "'num json"
  validation_issues :: "issue list"

definition validateConfigObject :: "'num json \<Rightarrow> 'num config_validation" where
  "validateConfigObject v = \<lparr>ok = True, validated_config = v, validation_issues = []\<rparr>"

subsection \<open>A runtime on sample inputs\<close>

text \<open>
  A concrete runtime for closed instances of the statements below. On the
  values and texts those instances use it answers as Node does: the compact
  text of \<open>{ok: true}\<close>; the text of \<open>{gateway: {bind: "lan"}}\<close> indented by
  two, and the parse of that text with or without a line feed after it; paths
  joined with a slash. Its answers elsewhere, and its digest, are stand-ins.
\<close>

definition sample_cfg :: "int json" where
  "sample_cfg = JObj [(''gateway'', JObj [(''bind'', JStr ''lan'')])]"

definition sample_cfg_text :: string where
  "sample_cfg_text =
     ''{'' @ [LF] @
     ''  '' @ [DQ] @ ''gateway'' @ [DQ] @ '': {'' @ [LF] @
     ''    '' @ [DQ] @ ''bind'' @ [DQ] @ '': '' @ [DQ] @ ''lan'' @ [DQ] @ [LF] @
     ''  }'' @ [LF] @
     ''}''"

definition sample_runtime :: "int runtime" where
  "sample_runtime =
     \<lparr>JSON_parse = (\<lambda>s.
        if s = sample_cfg_text \<or> s = sample_cfg_text @ [LF] then Inr sample_cfg
        else Inl (JsError ''SyntaxError'' ''Unexpected token'')),
      JSON_stringify = (\<lambda>v space.
        if v = JObj [(''ok'', JBool True)] \<and> space = 0
        then ''{'' @ [DQ] @ ''ok'' @ [DQ] @ '':true}''
        else if v = sample_cfg \<and> space = 2 then sample_cfg_text
        else ''null''),
      sha256_hex = (\<lambda>s. ''sha256:'' @ s),
      path_join = (\<lambda>a b. a @ ''/'' @ b),
      path_dirname = (\<lambda>p. rev (tl (dropWhile (\<lambda>c. c \<noteq> CHR ''/'') (rev p))))\<rparr>"

definition sample_world :: "int world" where
  "sample_world =
     \<lparr>testConfigRoot = ''/tmp/clawdbot-gateway-test'',
      testState = \<lparr>legacyIssues = [], legacyParsed = Some (JObj [])\<rparr>,
      fs = Map.empty\<rparr>"

section \<open>Properties\<close>

subsection \<open>Helper facts\<close>

lemma close_handle: "close (bridge_server_handle R) s = (Resolved (), s)"
  by (simp add: bridge_server_handle_def)

lemma close_handle_iterated: "((\<lambda>s. snd (close (bridge_server_handle R) s)) ^^ n) s = s"
  by (induction n) (simp_all add: close_handle)

lemma run_call_step_activeIds: "activeIds (run_call_step c m) = activeIds m"
  by (cases c) (simp_all add: abortEmbeddedPiRun_def waitForEmbeddedPiRunEnd_def Let_def)

lemma run_calls_activeIds: "activeIds (run_calls cs m) = activeIds m"
  by (induction cs arbitrary: m) (simp_all add: run_call_step_activeIds)

lemma sample_config_path:
  "resolveConfigPath sample_runtime sample_world = ''/tmp/clawdbot-gateway-test/clawdbot.json''"
  by (simp add: resolveConfigPath_def sample_runtime_def sample_world_def)

lemma sample_dirname:
  "path_dirname sample_runtime ''/tmp/clawdbot-gateway-test/clawdbot.json''
     = ''/tmp/clawdbot-gateway-test''"
  by (simp add: sample_runtime_def)

lemma sample_stringify: "JSON_stringify sample_runtime sample_cfg 2 = sample_cfg_text"
  by (simp add: sample_runtime_def sample_cfg_def)

lemma sample_trimEnd: "trimEnd sample_cfg_text = sample_cfg_text"
  by (simp add: sample_cfg_text_def trimEnd_def is_js_whitespace_def LF_def DQ_def)

lemma sample_parse:
  "JSON_parse sample_runtime sample_cfg_text = Inr sample_cfg"
  "JSON_parse sample_runtime (sample_cfg_text @ [LF]) = Inr sample_cfg"
  by (simp_all add: sample_runtime_def)

lemma sample_serializable: "JSON_serializable sample_runtime sample_cfg"
  by (simp add: JSON_serializable_def sample_stringify sample_trimEnd sample_parse)

lemma sample_written:
  "fst (writeConfigFile sample_runtime sample_cfg sample_world) = Resolved ()"
  unfolding writeConfigFile_def sample_config_path sample_dirname
  by (simp add: fs_mkdir_recursive_def fs_writeFile_def Let_def sample_world_def sample_dirname)

subsection \<open>The node bridge server mock\<close>

text \<open>
  C1. The claim: an \<open>invoke\<close> for a node id with no live connection fails at
  once with \<open>NodeNotConnected\<close> instead of resolving with a success result.
  The mock keeps no connections (\<open>listConnected\<close> is always empty) and its
  \<open>invoke\<close> looks at no argument. As amended: every \<open>invoke\<close>, whatever the
  node id, resolves with the fixed result \<open>invoke_res\<close>, whose \<open>ok\<close> is \<open>true\<close>;
  it never rejects.
\<close>

theorem bridgeInvoke_always_resolves:
  "listConnected (bridge_server_handle R) = [] \<and>
   bridgeInvoke R args = Resolved (invoke_res R) \<and>
   obj_get ''ok'' (invoke_res R) = Some (JBool True) \<and>
   \<not> is_rejected (bridgeInvoke R args)"
  by (simp add: bridge_server_handle_def bridgeListConnected_def bridgeInvoke_def
      invoke_res_def obj_get_def is_rejected_def)

text \<open>
  C1 as stated fails for node \<open>N2\<close>, which is not connected: the call resolves
  with \<open>ok: true\<close>.
\<close>

theorem invoke_unconnected_counterexample:
  "''N2'' \<notin> nodeId ` set (listConnected (bridge_server_handle sample_runtime)) \<and>
   invoke (bridge_server_handle sample_runtime) (''N2'', ''ping'', Some ''{}'', Some 1000)
     = Resolved (invoke_res sample_runtime) \<and>
   obj_get ''ok'' (invoke_res sample_runtime) = Some (JBool True) \<and>
   \<not> is_rejected
       (invoke (bridge_server_handle sample_runtime) (''N2'', ''ping'', Some ''{}'', Some 1000))"
  by (simp add: bridge_server_handle_def bridgeListConnected_def bridgeInvoke_def
      invoke_res_def obj_get_def is_rejected_def)

text \<open>
  C6. \<open>close()\<close> is idempotent: from every state, closing twice ends in the
  state that closing once ends in, and every call completes. The body is empty,
  so a call is one step that leaves the state as it is; calls made concurrently
  run as some sequence of such steps, and any number of them, one or more, ends
  where one does.
\<close>

theorem close_idempotent:
  "snd (close (bridge_server_handle R) (snd (close (bridge_server_handle R) s)))
     = snd (close (bridge_server_handle R) s) \<and>
   fst (close (bridge_server_handle R) s) = Resolved () \<and>
   fst (close (bridge_server_handle R) (snd (close (bridge_server_handle R) s))) = Resolved () \<and>
   ((\<lambda>t. snd (close (bridge_server_handle R) t)) ^^ Suc n) s
     = snd (close (bridge_server_handle R) s)"
proof -
  have once: "\<And>t. close (bridge_server_handle R) t = (Resolved (), t)"
    by (rule close_handle)
  have many: "((\<lambda>t. snd (close (bridge_server_handle R) t)) ^^ Suc n) s = s"
    by (rule close_handle_iterated)
  show ?thesis
    unfolding many by (simp add: once)
qed

text \<open>
  C7. The claim: the value an \<open>invoke\<close> resolves with has exactly the shape of
  an \<open>onRequest\<close> result, with no other fields. As amended: every \<open>invoke\<close>
  resolves with an object of the five properties \<open>type\<close>, \<open>id\<close>, \<open>ok\<close>,
  \<open>payloadJSON\<close>, \<open>error\<close>, where \<open>type\<close> is \<open>"invoke-res"\<close>, \<open>id\<close> is \<open>"1"\<close>
  and \<open>error\<close> is \<open>null\<close>; its \<open>ok\<close> and \<open>payloadJSON\<close> alone form a successful
  \<open>onRequest\<close> result.
\<close>

theorem invoke_result_shape:
  "invoke (bridge_server_handle R) args = Resolved (invoke_res R) \<and>
   obj_keys (invoke_res R) = [''type'', ''id'', ''ok'', ''payloadJSON'', ''error''] \<and>
   obj_get ''type'' (invoke_res R) = Some (JStr ''invoke-res'') \<and>
   obj_get ''id'' (invoke_res R) = Some (JStr ''1'') \<and>
   obj_get ''error'' (invoke_res R) = Some JNull \<and>
   is_onRequest_result (obj_pick [''ok'', ''payloadJSON''] (invoke_res R))"
  by (simp add: bridge_server_handle_def bridgeInvoke_def invoke_res_def obj_keys_def
      obj_get_def obj_pick_def is_onRequest_result_def)

text \<open>
  C7 as stated fails: the resolved value has the properties \<open>type\<close>, \<open>id\<close> and
  \<open>error\<close> besides \<open>ok\<close> and \<open>payloadJSON\<close>, so it is not of the \<open>onRequest\<close>
  result shape.
\<close>

theorem invoke_result_shape_counterexample:
  "invoke (bridge_server_handle sample_runtime) (''N1'', ''ping'', Some ''{}'', Some 1000)
     = Resolved (invoke_res sample_runtime) \<and>
   obj_keys (invoke_res sample_runtime) = [''type'', ''id'', ''ok'', ''payloadJSON'', ''error''] \<and>
   \<not> is_onRequest_result (invoke_res sample_runtime)"
  by (simp add: bridge_server_handle_def bridgeInvoke_def invoke_res_def obj_keys_def
      obj_get_def is_onRequest_result_def)

subsection \<open>The embedded run mock\<close>

text \<open>
  C2. The claim: while a run is active for \<open>s1\<close>, \<open>abort("s1")\<close> returns true
  and a \<open>waitForEnd("s1")\<close> beside or after it resolves with false. The mock's
  wait reports the outcome recorded in \<open>waitResults\<close>, which \<open>abort\<close> does not
  write. As amended: while a run is active for a session, \<open>abort\<close> returns
  true, before or after a wait; a \<open>waitForEnd\<close> before or after the abort
  resolves with the outcome recorded for the session in \<open>waitResults\<close>, and
  with true when none is recorded.
\<close>

theorem abort_active_then_wait:
  assumes "isEmbeddedPiRunActive sessionId m"
  shows "fst (abortEmbeddedPiRun sessionId m) = True \<and>
         fst (waitForEmbeddedPiRunEnd sessionId (snd (abortEmbeddedPiRun sessionId m)))
           = Resolved (case waitResults m sessionId of Some b \<Rightarrow> b | None \<Rightarrow> True) \<and>
         fst (waitForEmbeddedPiRunEnd sessionId m)
           = Resolved (case waitResults m sessionId of Some b \<Rightarrow> b | None \<Rightarrow> True) \<and>
         fst (abortEmbeddedPiRun sessionId (snd (waitForEmbeddedPiRunEnd sessionId m))) = True"
  using assms
  by (simp add: isEmbeddedPiRunActive_def abortEmbeddedPiRun_def waitForEmbeddedPiRunEnd_def Let_def)

text \<open>
  An instance: with the outcome \<open>false\<close> recorded for \<open>s1\<close>, the wait after the
  abort resolves with false.
\<close>

theorem abort_active_then_wait_witness:
  "isEmbeddedPiRunActive ''s1'' run_aborting_s1 \<and>
   fst (abortEmbeddedPiRun ''s1'' run_aborting_s1) = True \<and>
   fst (waitForEmbeddedPiRunEnd ''s1'' (snd (abortEmbeddedPiRun ''s1'' run_aborting_s1)))
     = Resolved False"
proof -
  have active: "isEmbeddedPiRunActive ''s1'' run_aborting_s1"
    by (simp add: isEmbeddedPiRunActive_def run_aborting_s1_def)
  have outcome: "waitResults run_aborting_s1 ''s1'' = Some False"
    by (simp add: run_aborting_s1_def)
  from abort_active_then_wait [OF active] active outcome show ?thesis
    by simp
qed

text \<open>
  C2 as stated fails where a run is active for \<open>s1\<close> and no outcome is
  recorded: \<open>abort\<close> returns true, and the wait, before or after it, resolves
  with true.
\<close>

theorem abort_then_wait_counterexample:
  "isEmbeddedPiRunActive ''s1'' run_active_s1 \<and>
   fst (abortEmbeddedPiRun ''s1'' run_active_s1) = True \<and>
   fst (waitForEmbeddedPiRunEnd ''s1'' (snd (abortEmbeddedPiRun ''s1'' run_active_s1)))
     = Resolved True \<and>
   fst (waitForEmbeddedPiRunEnd ''s1'' run_active_s1) = Resolved True"
  by (simp add: isEmbeddedPiRunActive_def abortEmbeddedPiRun_def waitForEmbeddedPiRunEnd_def
      run_active_s1_def Let_def)

text \<open>
  C3. The claim: for a session that has no run and never had one,
  \<open>waitForEnd\<close> resolves at once with true. The mock's wait does not look at
  \<open>activeIds\<close>: it reports what \<open>waitResults\<close> holds for the session. As
  amended: \<open>waitForEnd(sessionId)\<close> resolves at once with the outcome recorded
  for the session in \<open>waitResults\<close>, whether or not the session has or had a
  run, and with true when no outcome is recorded, as for every session in the
  state the module starts in; its only effect is the entry in \<open>waitCalls\<close>.
\<close>

theorem waitForEnd_default_outcome:
  "fst (waitForEmbeddedPiRunEnd sessionId m)
     = Resolved (case waitResults m sessionId of Some b \<Rightarrow> b | None \<Rightarrow> True) \<and>
   snd (waitForEmbeddedPiRunEnd sessionId m) = m\<lparr>waitCalls := waitCalls m @ [sessionId]\<rparr> \<and>
   (waitResults m sessionId = None \<longrightarrow>
      fst (waitForEmbeddedPiRunEnd sessionId m) = Resolved True)"
  by (simp add: waitForEmbeddedPiRunEnd_def Let_def)

text \<open>An instance: session \<open>s2\<close> in the state the module starts in.\<close>

theorem waitForEnd_default_outcome_witness:
  "waitResults embeddedRunMock_initial ''s2'' = None \<and>
   fst (waitForEmbeddedPiRunEnd ''s2'' embeddedRunMock_initial) = Resolved True"
proof -
  have fresh: "waitResults embeddedRunMock_initial ''s2'' = None"
    by (simp add: embeddedRunMock_initial_def)
  from waitForEnd_default_outcome [of "''s2''" embeddedRunMock_initial] fresh
  show ?thesis by blast
qed

text \<open>
  C3 as stated fails for the session \<open>gone\<close>: no run is active for it, no
  call has made one active, and the wait resolves with the recorded false.
\<close>

theorem waitForEnd_absent_run_counterexample:
  "\<not> isEmbeddedPiRunActive ''gone'' outcome_without_run \<and>
   activeIds outcome_without_run = {} \<and>
   fst (waitForEmbeddedPiRunEnd ''gone'' outcome_without_run) = Resolved False"
  by (simp add: isEmbeddedPiRunActive_def waitForEmbeddedPiRunEnd_def outcome_without_run_def
      Let_def)

text \<open>
  C4. The claim: \<open>abort\<close> on a session with no active run returns false and
  has no side effect; in general it returns true iff a run is active. The mock
  logs every call. As amended: \<open>abort(sessionId)\<close> returns true iff a run is
  active for the session at call time, so false when none is; it changes
  nothing but \<open>abortCalls\<close>, to which it appends the session id also when it
  returns false, so that \<open>isActive\<close>, \<open>abort\<close> and \<open>waitForEnd\<close> answer for
  every session afterwards as they did before.
\<close>

theorem abort_result_and_effect:
  "fst (abortEmbeddedPiRun sessionId m) = isEmbeddedPiRunActive sessionId m \<and>
   snd (abortEmbeddedPiRun sessionId m) = m\<lparr>abortCalls := abortCalls m @ [sessionId]\<rparr> \<and>
   isEmbeddedPiRunActive other (snd (abortEmbeddedPiRun sessionId m))
     = isEmbeddedPiRunActive other m \<and>
   fst (abortEmbeddedPiRun other (snd (abortEmbeddedPiRun sessionId m)))
     = fst (abortEmbeddedPiRun other m) \<and>
   fst (waitForEmbeddedPiRunEnd other (snd (abortEmbeddedPiRun sessionId m)))
     = fst (waitForEmbeddedPiRunEnd other m)"
  by (simp add: isEmbeddedPiRunActive_def abortEmbeddedPiRun_def waitForEmbeddedPiRunEnd_def Let_def)

text \<open>
  C4 as stated fails in the state the module starts in: no run is active for
  \<open>s1\<close>, \<open>abort("s1")\<close> returns false, and the state has changed:
  \<open>abortCalls\<close> was empty and now holds \<open>s1\<close>.
\<close>

theorem abort_inactive_counterexample:
  "\<not> isEmbeddedPiRunActive ''s1'' embeddedRunMock_initial \<and>
   fst (abortEmbeddedPiRun ''s1'' embeddedRunMock_initial) = False \<and>
   abortCalls embeddedRunMock_initial = [] \<and>
   abortCalls (snd (abortEmbeddedPiRun ''s1'' embeddedRunMock_initial)) = [''s1''] \<and>
   snd (abortEmbeddedPiRun ''s1'' embeddedRunMock_initial) \<noteq> embeddedRunMock_initial"
  by (simp add: isEmbeddedPiRunActive_def abortEmbeddedPiRun_def embeddedRunMock_initial_def Let_def)

text \<open>
  C5. A run that ends, by completion or by abort, is removed from the active
  set: once the run of a session has ended, \<open>isActive\<close> returns false for it,
  and no later \<open>isActive\<close>, \<open>abort\<close> or \<open>waitForEnd\<close> makes it active again;
  in particular this holds after \<open>abort\<close> has returned true and the run has
  ended. The active set of every other session is as it was.
\<close>

theorem ended_run_not_active:
  "\<not> isEmbeddedPiRunActive sessionId (run_calls cs (end_run sessionId m)) \<and>
   (fst (abortEmbeddedPiRun sessionId m) \<longrightarrow>
      \<not> isEmbeddedPiRunActive sessionId
          (run_calls cs (end_run sessionId (snd (abortEmbeddedPiRun sessionId m))))) \<and>
   (other \<noteq> sessionId \<longrightarrow>
      isEmbeddedPiRunActive other (run_calls cs (end_run sessionId m))
        = isEmbeddedPiRunActive other m)"
  by (simp add: isEmbeddedPiRunActive_def run_calls_activeIds end_run_def)

text \<open>
  An instance: \<open>s1\<close> is active, \<open>abort\<close> returns true, the run ends, and after
  a wait, another abort and a query \<open>s1\<close> is not active.
\<close>

theorem ended_run_not_active_witness:
  "isEmbeddedPiRunActive ''s1'' run_active_s1 \<and>
   fst (abortEmbeddedPiRun ''s1'' run_active_s1) \<and>
   \<not> isEmbeddedPiRunActive ''s1''
       (run_calls [WaitForEnd ''s1'', Abort ''s1'', IsActive ''s1'']
          (end_run ''s1'' (snd (abortEmbeddedPiRun ''s1'' run_active_s1))))"
proof -
  have active: "isEmbeddedPiRunActive ''s1'' run_active_s1"
    by (simp add: isEmbeddedPiRunActive_def run_active_s1_def)
  have aborted: "fst (abortEmbeddedPiRun ''s1'' run_active_s1)"
    by (simp add: abortEmbeddedPiRun_def run_active_s1_def Let_def)
  from ended_run_not_active
         [of "''s1''" "[WaitForEnd ''s1'', Abort ''s1'', IsActive ''s1'']" run_active_s1]
       active aborted
  show ?thesis by blast
qed

subsection \<open>The configuration module mock\<close>

text \<open>
  C8. \<open>validateConfigObject\<close> returns \<open>ok: true\<close> and no issues for every
  input, and hands the input back as the configuration.
\<close>

theorem validateConfigObject_vacuous:
  "ok (validateConfigObject v) = True \<and>
   validation_issues (validateConfigObject v) = [] \<and>
   validated_config (validateConfigObject v) = v"
  by (simp add: validateConfigObject_def)

text \<open>
  C9. \<open>parseConfigJson5\<close> is total and never throws: it returns
  \<open>{ok: true, parsed}\<close> with the parsed value iff the text is valid JSON, and
  otherwise \<open>{ok: false, error}\<close> with the string of the error that
  \<open>JSON.parse\<close> threw.
\<close>

theorem parseConfigJson5_total:
  "(parse_ok (parseConfigJson5 R s) \<longleftrightarrow> valid_JSON R s) \<and>
   (case JSON_parse R s of
      Inr v \<Rightarrow> parseConfigJson5 R s = ParseOk v
    | Inl err \<Rightarrow> parseConfigJson5 R s = ParseFailed (String_of_error err))"
  by (simp add: parseConfigJson5_def parse_ok_def valid_JSON_def split: sum.split)

text \<open>
  C10. Write and read round trip: with no legacy issues configured, for a
  JSON-serializable \<open>cfg\<close>, once \<open>writeConfigFile(cfg)\<close> has resolved,
  \<open>readConfigFileSnapshot()\<close> resolves with a snapshot that has \<open>exists\<close> and
  \<open>valid\<close> true, no issues, and \<open>parsed\<close> and \<open>config\<close> equal to \<open>cfg\<close>; its
  \<open>raw\<close> is the text written and its \<open>hash\<close> the digest of that text.
\<close>

theorem write_then_read_snapshot:
  assumes no_legacy: "legacyIssues (testState w) = []"
    and serializable: "JSON_serializable R cfg"
    and written: "fst (writeConfigFile R cfg w) = Resolved ()"
  shows "readConfigFileSnapshot R (snd (writeConfigFile R cfg w)) =
           Resolved
             \<lparr>path = resolveConfigPath R w,
              exists = True,
              raw = Some (trimEnd (JSON_stringify R cfg 2) @ [LF]),
              parsed = cfg,
              valid = True,
              config = cfg,
              hash = hashConfigRaw R (Some (trimEnd (JSON_stringify R cfg 2) @ [LF])),
              issues = [],
              snapshot_legacyIssues = []\<rparr>"
proof -
  define p where "p = resolveConfigPath R w"
  define body where "body = trimEnd (JSON_stringify R cfg 2) @ [LF]"
  obtain w' where w': "writeConfigFile R cfg w = (Resolved (), w')"
    using written by (cases "writeConfigFile R cfg w") simp
  have same_root: "testConfigRoot w' = testConfigRoot w"
    and same_state: "testState w' = testState w"
    and stored: "fs w' p = Some (File body)"
    using w' unfolding writeConfigFile_def fs_mkdir_recursive_def fs_writeFile_def p_def body_def
    by (auto simp: Let_def split: option.splits fs_node.splits prod.splits promise.splits if_splits)
  have same_path: "resolveConfigPath R w' = p"
    by (simp add: resolveConfigPath_def p_def same_root)
  have parses: "JSON_parse R body = Inr cfg"
    using serializable by (simp add: JSON_serializable_def body_def)
  show ?thesis
    unfolding w' snd_conv readConfigFileSnapshot_def
    by (simp add: Let_def same_path same_state no_legacy fs_access_def fs_readFile_def stored
        parses p_def [symmetric] body_def [symmetric])
qed

text \<open>
  An instance: the configuration \<open>{gateway: {bind: "lan"}}\<close> written to an empty
  disk and read back.
\<close>

theorem write_then_read_snapshot_witness:
  "legacyIssues (testState sample_world) = [] \<and>
   JSON_serializable sample_runtime sample_cfg \<and>
   fst (writeConfigFile sample_runtime sample_cfg sample_world) = Resolved () \<and>
   readConfigFileSnapshot sample_runtime
       (snd (writeConfigFile sample_runtime sample_cfg sample_world)) =
     Resolved
       \<lparr>path = ''/tmp/clawdbot-gateway-test/clawdbot.json'',
        exists = True,
        raw = Some (sample_cfg_text @ [LF]),
        parsed = sample_cfg,
        valid = True,
        config = sample_cfg,
        hash = ''sha256:'' @ sample_cfg_text @ [LF],
        issues = [],
        snapshot_legacyIssues = []\<rparr>"
proof -
  have no_legacy: "legacyIssues (testState sample_world) = []"
    by (simp add: sample_world_def)
  have digest:
    "hashConfigRaw sample_runtime (Some (sample_cfg_text @ [LF])) = ''sha256:'' @ sample_cfg_text @ [LF]"
    by (simp add: hashConfigRaw_def sample_runtime_def)
  from write_then_read_snapshot [OF no_legacy sample_serializable sample_written]
  show ?thesis
    unfolding sample_stringify sample_trimEnd digest sample_config_path
    by (simp add: no_legacy sample_serializable sample_written)
qed

end
